theory Spec2Isabelle
  imports Main "HOL-Library.Word" "HOL-Library.AList"
begin

section \<open>Python values\<close>

text \<open>
  The handler of \<^verbatim>\<open>src/lambdas/validate_logic/app.py\<close> receives an event that the
  serverless host has decoded from JSON, so the values it can meet are the seven kinds
  below. A \<^verbatim>\<open>str\<close> is the sequence of its Unicode code points, which is what
  \<^verbatim>\<open>len\<close> counts, so a character of the model is a code point (a natural number)
  and not a byte. A \<^verbatim>\<open>float\<close> is carried as the 64 bits of its IEEE-754 double.
  A \<^verbatim>\<open>dict\<close> is the list of its items in insertion order, its keys strings; a lookup
  goes through \<^const>\<open>map_of\<close>.
\<close>

type_synonym pystr = "nat list"

datatype pyval =
    PNone
  | PBool bool
  | PInt int
  | PFloat "64 word"
  | PStr pystr
  | PList "pyval list"
  | PDict "(pystr \<times> pyval) list"

type_synonym pydict = "(pystr \<times> pyval) list"

datatype error = TypeError | AttributeError

text \<open>A string literal of the source, as code points.\<close>

definition str_lit :: "string \<Rightarrow> pystr" where
  "str_lit s = map of_char s"

subsection \<open>The built-in operations the handler calls\<close>

text \<open>\<^verbatim>\<open>d.get(key, default)\<close>: the value at the key, or the default; it never raises
  for a string key and leaves the dict as it is.\<close>

definition dict_get :: "pydict \<Rightarrow> pystr \<Rightarrow> pyval \<Rightarrow> pyval" where
  "dict_get d key dflt =
     (case map_of d key of Some v \<Rightarrow> v | None \<Rightarrow> dflt)"

text \<open>\<^verbatim>\<open>isinstance(v, str)\<close>.\<close>

fun isinstance_str :: "pyval \<Rightarrow> bool" where
  "isinstance_str (PStr s) = True"
| "isinstance_str v = False"

text \<open>\<^verbatim>\<open>len(v)\<close>: defined on strings, lists and dicts; a \<^verbatim>\<open>TypeError\<close> on
  \<^verbatim>\<open>None\<close>, booleans and numbers.\<close>

fun py_len :: "pyval \<Rightarrow> error + nat" where
  "py_len (PStr s) = Inr (length s)"
| "py_len (PList xs) = Inr (length xs)"
| "py_len (PDict d) = Inr (length d)"
| "py_len v = Inl TypeError"

text \<open>The truth value of an object, as \<^verbatim>\<open>and\<close> and the conditional expression
  test it.\<close>

fun truthy :: "pyval \<Rightarrow> bool" where
  "truthy PNone = False"
| "truthy (PBool b) = b"
| "truthy (PInt i) = (i \<noteq> 0)"
| "truthy (PFloat w) = (take_bit 63 w \<noteq> 0)"
| "truthy (PStr s) = (s \<noteq> [])"
| "truthy (PList xs) = (xs \<noteq> [])"
| "truthy (PDict d) = (d \<noteq> [])"

text \<open>\<^verbatim>\<open>a and b\<close>: the left operand when it is falsy, and only otherwise the
  right operand, whose evaluation may raise. The result is one of the operands, not a
  coerced boolean.\<close>

definition py_and :: "pyval \<Rightarrow> error + pyval \<Rightarrow> error + pyval" where
  "py_and a b = (if truthy a then b else Inr a)"

text \<open>\<^verbatim>\<open>len(v) > n\<close>.\<close>

definition len_gt :: "pyval \<Rightarrow> nat \<Rightarrow> error + pyval" where
  "len_gt v n = (case py_len v of Inl e \<Rightarrow> Inl e | Inr l \<Rightarrow> Inr (PBool (l > n)))"

section \<open>The handler\<close>

text \<open>
  \<^verbatim>\<open>
  def lambda_handler(event, context):
      input_value = event.get("input", "")
      is_valid = isinstance(input_value, str) and len(input_value) > 3
      return {
          "input": input_value,
          "is_valid": is_valid,
          "message": "Valid input" if is_valid else "Invalid input"
      }
  \<close>
  The context is opaque: any type. A raised exception is \<open>Inl\<close>, the returned dict
  is \<open>Inr\<close>.
\<close>

definition lambda_handler :: "pydict \<Rightarrow> 'ctx \<Rightarrow> error + pydict" where
  "lambda_handler event context =
     (let input_value = dict_get event (str_lit ''input'') (PStr (str_lit '''')) in
      case py_and (PBool (isinstance_str input_value)) (len_gt input_value 3) of
        Inl e \<Rightarrow> Inl e
      | Inr is_valid \<Rightarrow>
          Inr [(str_lit ''input'', input_value),
               (str_lit ''is_valid'', is_valid),
               (str_lit ''message'',
                  if truthy is_valid then PStr (str_lit ''Valid input'')
                  else PStr (str_lit ''Invalid input''))])"

section \<open>A call of the handler on the object store\<close>

text \<open>
  Python passes the event by reference, and what lives from one invocation to the next
  in a warm process is the object store: the event object, the module's namespace and
  every other object. The store is the list of the objects allocated so far, an address
  is an index into it, and a new object gets the next index. Objects nested in a dict
  are carried inside it: the handler mutates none of them.

  A call of \<^verbatim>\<open>lambda_handler(event, context)\<close> touches the store twice:
  \<^verbatim>\<open>event.get\<close> reads the object that \<^verbatim>\<open>event\<close> refers to (an object that is not a
  dict has no \<^verbatim>\<open>get\<close>: \<^verbatim>\<open>AttributeError\<close>), and the dict display of the
  \<^verbatim>\<open>return\<close> statement allocates the response. No statement of the body assigns to
  a module-level name, to an attribute or to an item of an existing object.
\<close>

type_synonym addr = nat

type_synonym heap = "pyval list"

definition heap_lookup :: "heap \<Rightarrow> addr \<Rightarrow> pyval option" where
  "heap_lookup h a = (if a < length h then Some (h ! a) else None)"

definition alloc :: "heap \<Rightarrow> pyval \<Rightarrow> addr \<times> heap" where
  "alloc h v = (length h, h @ [v])"

definition invoke :: "heap \<Rightarrow> addr \<Rightarrow> 'ctx \<Rightarrow> (error + addr) \<times> heap" where
  "invoke h event context =
     (case heap_lookup h event of
        Some (PDict d) \<Rightarrow>
          (case lambda_handler d context of
             Inl e \<Rightarrow> (Inl e, h)
           | Inr response \<Rightarrow>
               (case alloc h (PDict response) of (a, h') \<Rightarrow> (Inr a, h')))
      | _ \<Rightarrow> (Inl AttributeError, h))"

section \<open>Auxiliary facts\<close>

text \<open>The three keys of the response are three different strings, and so are the two
  messages.\<close>

lemma response_keys_distinct:
  "str_lit ''input'' \<noteq> str_lit ''is_valid''"
  "str_lit ''input'' \<noteq> str_lit ''message''"
  "str_lit ''is_valid'' \<noteq> str_lit ''message''"
  "str_lit ''is_valid'' \<noteq> str_lit ''input''"
  "str_lit ''message'' \<noteq> str_lit ''input''"
  "str_lit ''message'' \<noteq> str_lit ''is_valid''"
  by (simp_all add: str_lit_def)

lemma messages_distinct: "str_lit ''Valid input'' \<noteq> str_lit ''Invalid input''"
  by (simp add: str_lit_def)

lemma str_lit_empty: "str_lit '''' = []"
  by (simp add: str_lit_def)

text \<open>Without the \<^verbatim>\<open>isinstance\<close> guard the length test raises on a number; with it,
  the right operand of \<^verbatim>\<open>and\<close> is not evaluated.\<close>

lemma len_gt_number_raises: "len_gt (PInt 12345) 3 = Inl TypeError"
  by (simp add: len_gt_def)

lemma guarded_len_gt_number:
  "py_and (PBool (isinstance_str (PInt 12345))) (len_gt (PInt 12345) 3) = Inr (PBool False)"
  by (simp add: py_and_def)

lemma guarded_len_gt:
  "py_and (PBool (isinstance_str v)) (len_gt v 3) =
     Inr (PBool (case v of PStr s \<Rightarrow> 3 < length s | _ \<Rightarrow> False))"
  by (cases v) (simp_all add: py_and_def len_gt_def)

text \<open>The response on a string and on a value of any other type.\<close>

lemma lambda_handler_str:
  assumes "dict_get event (str_lit ''input'') (PStr (str_lit '''')) = PStr s"
  shows "lambda_handler event context =
           Inr [(str_lit ''input'', PStr s),
                (str_lit ''is_valid'', PBool (3 < length s)),
                (str_lit ''message'',
                   PStr (str_lit (if 3 < length s then ''Valid input'' else ''Invalid input'')))]"
  using assms by (simp add: lambda_handler_def guarded_len_gt)

lemma lambda_handler_non_str:
  assumes "dict_get event (str_lit ''input'') (PStr (str_lit '''')) = v"
    and "\<not> isinstance_str v"
  shows "lambda_handler event context =
           Inr [(str_lit ''input'', v),
                (str_lit ''is_valid'', PBool False),
                (str_lit ''message'', PStr (str_lit ''Invalid input''))]"
  using assms by (cases v) (simp_all add: lambda_handler_def guarded_len_gt)

lemma isinstance_str_iff: "isinstance_str v \<longleftrightarrow> (\<exists>s. v = PStr s)"
  by (cases v) simp_all

lemma dict_get_absent:
  assumes "key \<notin> fst ` set d"
  shows "dict_get d key dflt = dflt"
proof -
  from assms have "map_of d key = None"
    by (simp add: map_of_eq_None_iff)
  then show ?thesis
    by (simp add: dict_get_def)
qed

lemma dict_get_cong:
  "map_of d key = map_of d' key \<Longrightarrow> dict_get d key dflt = dict_get d' key dflt"
  by (simp add: dict_get_def)

text \<open>The handler reads its event through the one lookup only, and does not read
  its context.\<close>

lemma lambda_handler_cong:
  fixes ctx :: "'a" and ctx' :: "'b"
  assumes "dict_get event (str_lit ''input'') (PStr (str_lit ''''))
             = dict_get event' (str_lit ''input'') (PStr (str_lit ''''))"
  shows "lambda_handler event ctx = lambda_handler event' ctx'"
  using assms by (simp add: lambda_handler_def)

text \<open>The response in closed form: the model runs the handler's three statements and
  no branch of it raises.\<close>

lemma lambda_handler_response:
  "lambda_handler event context =
     (let v = dict_get event (str_lit ''input'') (PStr (str_lit ''''));
          valid = (case v of PStr s \<Rightarrow> 3 < length s | _ \<Rightarrow> False)
      in Inr [(str_lit ''input'', v),
              (str_lit ''is_valid'', PBool valid),
              (str_lit ''message'',
                 PStr (str_lit (if valid then ''Valid input'' else ''Invalid input'')))])"
  by (simp add: lambda_handler_def guarded_len_gt Let_def)

lemma extracted_value:
  "dict_get event (str_lit ''input'') (PStr (str_lit ''''))
     = (case map_of event (str_lit ''input'') of Some v \<Rightarrow> v | None \<Rightarrow> PStr [])"
  by (simp add: dict_get_def str_lit_empty)

lemma long_string_iff:
  "(case v of PStr s \<Rightarrow> 3 < length s | _ \<Rightarrow> False) \<longleftrightarrow> (\<exists>s. v = PStr s \<and> 3 < length s)"
  by (cases v) simp_all

text \<open>Allocation leaves every object of the store where and what it was.\<close>

lemma heap_lookup_alloc_old:
  "a < length h \<Longrightarrow> heap_lookup (snd (alloc h v)) a = heap_lookup h a"
  by (simp add: heap_lookup_def alloc_def nth_append)

lemma heap_lookup_alloc_new:
  "heap_lookup (snd (alloc h v)) (fst (alloc h v)) = Some v"
  by (simp add: heap_lookup_def alloc_def)



text \<open>A call on an event object that is no dict raises.\<close>

lemma invoke_on_none: "invoke [PNone] 0 context = (Inl AttributeError, [PNone])"
  by (simp add: invoke_def heap_lookup_def)

section \<open>The claims\<close>

text \<open>
  Claim C5. For every event that is a mapping, whatever the types of its values and
  whether or not it has the key \<^verbatim>\<open>"input"\<close>, the handler returns a response; it raises
  for no such event.
\<close>

theorem lambda_handler_total:
  "\<exists>r. lambda_handler event context = Inr r"
proof (cases "isinstance_str (dict_get event (str_lit ''input'') (PStr (str_lit '''')))")
  case True
  then obtain s where "dict_get event (str_lit ''input'') (PStr (str_lit '''')) = PStr s"
    by (auto simp: isinstance_str_iff)
  then show ?thesis
    by (simp add: lambda_handler_str)
next
  case False
  then show ?thesis
    by (simp add: lambda_handler_non_str)
qed

text \<open>
  Claim C1. For every event, \<^verbatim>\<open>is_valid\<close> in the response is true if and only if the
  extracted value (the event's \<^verbatim>\<open>"input"\<close> field, or the empty string when the key is
  absent) is a string of length greater than 3; in particular it is false for every value
  that is not a string.
\<close>

theorem is_valid_iff_long_string:
  "\<exists>r valid. lambda_handler event context = Inr r
      \<and> map_of r (str_lit ''is_valid'') = Some (PBool valid)
      \<and> (let extracted = (case map_of event (str_lit ''input'') of
                             Some v \<Rightarrow> v | None \<Rightarrow> PStr [])
         in (valid \<longleftrightarrow> (\<exists>s. extracted = PStr s \<and> 3 < length s))
            \<and> ((\<forall>s. extracted \<noteq> PStr s) \<longrightarrow> \<not> valid))"
proof -
  let ?v = "dict_get event (str_lit ''input'') (PStr (str_lit ''''))"
  let ?valid = "case ?v of PStr s \<Rightarrow> 3 < length s | _ \<Rightarrow> False"
  obtain r where r: "lambda_handler event context = Inr r"
    and "map_of r (str_lit ''is_valid'') = Some (PBool ?valid)"
    by (simp add: lambda_handler_response Let_def response_keys_distinct)
  moreover have "?valid \<longleftrightarrow> (\<exists>s. ?v = PStr s \<and> 3 < length s)"
    by (rule long_string_iff)
  moreover have "(\<forall>s. ?v \<noteq> PStr s) \<longrightarrow> \<not> ?valid"
    by (simp add: long_string_iff)
  ultimately show ?thesis
    unfolding Let_def extracted_value by blast
qed

theorem is_valid_iff_long_string_witness:
  "(\<forall>s. PInt 12345 \<noteq> PStr s)
   \<and> (\<exists>r. lambda_handler [(str_lit ''input'', PInt 12345)] () = Inr r
          \<and> map_of r (str_lit ''is_valid'') = Some (PBool False))
   \<and> (\<exists>r. lambda_handler [(str_lit ''input'', PStr (str_lit ''hello''))] () = Inr r
          \<and> map_of r (str_lit ''is_valid'') = Some (PBool True))"
proof -
  have "\<exists>r. lambda_handler [(str_lit ''input'', PInt 12345)] () = Inr r
          \<and> map_of r (str_lit ''is_valid'') = Some (PBool False)"
    using is_valid_iff_long_string [of "[(str_lit ''input'', PInt 12345)]" "()"]
    by (auto simp: Let_def)
  moreover have "\<exists>r. lambda_handler [(str_lit ''input'', PStr (str_lit ''hello''))] () = Inr r
          \<and> map_of r (str_lit ''is_valid'') = Some (PBool True)"
    using is_valid_iff_long_string [of "[(str_lit ''input'', PStr (str_lit ''hello''))]" "()"]
    by (auto simp: Let_def str_lit_def)
  ultimately show ?thesis
    by simp
qed

text \<open>
  Claim C2. For every event, \<^verbatim>\<open>message\<close> in the response is the string
  \<^verbatim>\<open>"Valid input"\<close> when \<^verbatim>\<open>is_valid\<close> is true and the string \<^verbatim>\<open>"Invalid input"\<close> when
  it is false; there is no third message.
\<close>

theorem message_follows_is_valid:
  "\<exists>r valid. lambda_handler event context = Inr r
      \<and> map_of r (str_lit ''is_valid'') = Some (PBool valid)
      \<and> map_of r (str_lit ''message'')
          = Some (PStr (str_lit (if valid then ''Valid input'' else ''Invalid input'')))"
proof -
  let ?v = "dict_get event (str_lit ''input'') (PStr (str_lit ''''))"
  let ?valid = "case ?v of PStr s \<Rightarrow> 3 < length s | _ \<Rightarrow> False"
  obtain r where "lambda_handler event context = Inr r"
    and "map_of r (str_lit ''is_valid'') = Some (PBool ?valid)"
    and "map_of r (str_lit ''message'')
          = Some (PStr (str_lit (if ?valid then ''Valid input'' else ''Invalid input'')))"
    by (simp add: lambda_handler_response Let_def response_keys_distinct)
  then show ?thesis
    by blast
qed

text \<open>
  Claim C3, as amended. On the event \<^verbatim>\<open>{"input": "test"}\<close> the handler returns
  \<^verbatim>\<open>{"input": "test", "is_valid": True, "message": "Valid input"}\<close>: the string has
  length 4, which is greater than 3.
\<close>

theorem test_event_is_valid:
  "lambda_handler [(str_lit ''input'', PStr (str_lit ''test''))] context =
     Inr [(str_lit ''input'', PStr (str_lit ''test'')),
          (str_lit ''is_valid'', PBool True),
          (str_lit ''message'', PStr (str_lit ''Valid input''))]"
  by (simp add: lambda_handler_def dict_get_def py_and_def len_gt_def str_lit_def)

text \<open>
  Claim C3 as the scenario table has it (\<^verbatim>\<open>is_valid\<close> false and the message
  \<^verbatim>\<open>"Invalid input"\<close> for \<^verbatim>\<open>{"input": "test"}\<close>) does not hold of the handler.
\<close>

theorem test_event_counterexample:
  "lambda_handler [(str_lit ''input'', PStr (str_lit ''test''))] () \<noteq>
     Inr [(str_lit ''input'', PStr (str_lit ''test'')),
          (str_lit ''is_valid'', PBool False),
          (str_lit ''message'', PStr (str_lit ''Invalid input''))]"
  by (simp add: lambda_handler_def dict_get_def py_and_def len_gt_def str_lit_def)

text \<open>
  Claim C4. For every event without the key \<^verbatim>\<open>"input"\<close> the handler does not raise;
  it takes the empty string as the value, and the response has \<^verbatim>\<open>input\<close> the empty
  string, \<^verbatim>\<open>is_valid\<close> false and \<^verbatim>\<open>message\<close> \<^verbatim>\<open>"Invalid input"\<close>.
\<close>

theorem missing_input_defaults:
  assumes "str_lit ''input'' \<notin> fst ` set event"
  shows "lambda_handler event context =
           Inr [(str_lit ''input'', PStr (str_lit '''')),
                (str_lit ''is_valid'', PBool False),
                (str_lit ''message'', PStr (str_lit ''Invalid input''))]"
proof -
  have "dict_get event (str_lit ''input'') (PStr (str_lit '''')) = PStr (str_lit '''')"
    using assms by (rule dict_get_absent)
  then show ?thesis
    by (simp add: lambda_handler_str [where s = "str_lit ''''"] str_lit_empty)
qed

theorem missing_input_defaults_witness:
  "str_lit ''input'' \<notin> fst ` set [(str_lit ''other'', PList [PInt 1, PNone])]
   \<and> lambda_handler [(str_lit ''other'', PList [PInt 1, PNone])] () =
       Inr [(str_lit ''input'', PStr (str_lit '''')),
            (str_lit ''is_valid'', PBool False),
            (str_lit ''message'', PStr (str_lit ''Invalid input''))]"
proof -
  have absent: "str_lit ''input'' \<notin> fst ` set [(str_lit ''other'', PList [PInt 1, PNone])]"
    by (simp add: str_lit_def)
  show ?thesis
    using absent missing_input_defaults [OF absent, of "()"] by simp
qed

text \<open>
  Claim C6. For every event, \<^verbatim>\<open>input\<close> in the response is the extracted value itself:
  the value of the event's \<^verbatim>\<open>"input"\<close> field when the key is present, of whatever type,
  and the empty string otherwise; nothing is transformed, truncated or trimmed.
\<close>

theorem input_passed_through:
  "\<exists>r. lambda_handler event context = Inr r
      \<and> map_of r (str_lit ''input'')
          = Some (case map_of event (str_lit ''input'') of
                    Some v \<Rightarrow> v | None \<Rightarrow> PStr [])"
  by (simp add: lambda_handler_response Let_def extracted_value)



text \<open>
  Claim C8. The response depends on the \<^verbatim>\<open>"input"\<close> field of the event only: two calls
  whose events agree on whether the key \<^verbatim>\<open>"input"\<close> is present and on its value return
  the same response, whatever the other fields of the events and whatever the two
  contexts are.
\<close>

theorem response_depends_on_input_only:
  fixes ctx1 :: "'a" and ctx2 :: "'b"
  assumes "map_of event1 (str_lit ''input'') = map_of event2 (str_lit ''input'')"
  shows "lambda_handler event1 ctx1 = lambda_handler event2 ctx2"
  using assms by (intro lambda_handler_cong dict_get_cong)

theorem response_depends_on_input_only_witness:
  "map_of [(str_lit ''user'', PInt 7), (str_lit ''input'', PStr (str_lit ''hello''))]
       (str_lit ''input'')
     = map_of [(str_lit ''input'', PStr (str_lit ''hello'')), (str_lit ''debug'', PBool True)]
         (str_lit ''input'')
   \<and> lambda_handler
         [(str_lit ''user'', PInt 7), (str_lit ''input'', PStr (str_lit ''hello''))] ()
     = lambda_handler
         [(str_lit ''input'', PStr (str_lit ''hello'')), (str_lit ''debug'', PBool True)]
         (42::int)"
proof -
  have agree:
    "map_of [(str_lit ''user'', PInt 7), (str_lit ''input'', PStr (str_lit ''hello''))]
         (str_lit ''input'')
       = map_of [(str_lit ''input'', PStr (str_lit ''hello'')), (str_lit ''debug'', PBool True)]
           (str_lit ''input'')"
    by (simp add: str_lit_def)
  show ?thesis
    using agree response_depends_on_input_only [OF agree, of "()" "42::int"] by simp
qed

text \<open>
  Claim C9. A missing \<^verbatim>\<open>"input"\<close> key cannot be told from an empty string in the
  output: for every event without the key, the response is the response on the event
  extended with \<^verbatim>\<open>"input"\<close> set to the empty string; so the response on \<^verbatim>\<open>{}\<close> is the
  response on \<^verbatim>\<open>{"input": ""}\<close>.
\<close>

theorem missing_input_same_as_empty_string:
  assumes "str_lit ''input'' \<notin> fst ` set event"
  shows "lambda_handler event context =
           lambda_handler (AList.update (str_lit ''input'') (PStr (str_lit '''')) event) context"
proof -
  have "dict_get event (str_lit ''input'') (PStr (str_lit '''')) = PStr (str_lit '''')"
    using assms by (rule dict_get_absent)
  moreover have "dict_get (AList.update (str_lit ''input'') (PStr (str_lit '''')) event)
      (str_lit ''input'') (PStr (str_lit '''')) = PStr (str_lit '''')"
    by (simp add: dict_get_def update_conv')
  ultimately show ?thesis
    by (intro lambda_handler_cong) simp
qed

theorem missing_input_same_as_empty_string_witness:
  "str_lit ''input'' \<notin> fst ` set []
   \<and> lambda_handler [] () = lambda_handler [(str_lit ''input'', PStr (str_lit ''''))] ()"
  using missing_input_same_as_empty_string [of "[]" "()"] by simp

text \<open>
  Claim C10. For every event the response is a mapping with the three keys
  \<^verbatim>\<open>"input"\<close>, \<^verbatim>\<open>"is_valid"\<close> and \<^verbatim>\<open>"message"\<close> and no other, and its value at
  \<^verbatim>\<open>"is_valid"\<close> is a boolean, \<^verbatim>\<open>True\<close> or \<^verbatim>\<open>False\<close>, never another truthy or falsy
  value.
\<close>

theorem response_has_three_keys:
  "\<exists>r valid. lambda_handler event context = Inr r
      \<and> map fst r = [str_lit ''input'', str_lit ''is_valid'', str_lit ''message'']
      \<and> distinct (map fst r)
      \<and> map_of r (str_lit ''is_valid'') = Some (PBool valid)"
  by (simp add: lambda_handler_response Let_def response_keys_distinct)

end
